theory Spec2Isabelle
  imports Main
begin

section \<open>The builder state\<close>

text \<open>
  The class \<open>IrregularExpression\<close> of \<open>src/mod.ts\<close> has three private fields and
  inherits the listener machinery of \<open>EventTarget\<close>. The fields are a record. The
  \<open>Set<string>\<close> of flags keeps insertion order in the host language, and
  \<open>build\<close> reads it in that order, so the set is the list of its members from the
  oldest insertion to the newest. What \<open>emitError\<close> does to the outside world is
  the sequence of \<open>error\<close> events dispatched on the instance; the field
  \<open>dispatched\<close> records the \<open>detail\<close> of each one, oldest first.
\<close>

record builder =
  pattern :: string
  flags :: "string list"
  maxRun :: "int option"
  dispatched :: "string list"

text \<open>
  A string is a list of characters, and a position in a string counts characters,
  as the host counts the code units of its strings.
\<close>

text \<open>\<open>Set.prototype.has\<close> and \<open>Set.prototype.add\<close> on the insertion-ordered list.\<close>

definition set_has :: "'a list \<Rightarrow> 'a \<Rightarrow> bool" where
  "set_has s x = (x \<in> set s)"

definition set_add :: "'a list \<Rightarrow> 'a \<Rightarrow> 'a list" where
  "set_add s x = (if x \<in> set s then s else s @ [x])"

text \<open>
  A value of the host type \<open>number\<close>, as far as the builder looks at it: either
  \<open>Number.isInteger\<close> holds and the value is an integer, or it does not (a
  fraction, \<open>NaN\<close>, an infinity). Every comparison of the source on a number sits
  in a disjunction with \<open>!Number.isInteger\<close> of the same number, so the value of a
  non-integer never decides an outcome.
\<close>

datatype number = Integer int | NonInteger

fun isInteger :: "number \<Rightarrow> bool" where
  "isInteger (Integer n) = True"
| "isInteger NonInteger = False"

text \<open>
  The template literal \<open>${n}\<close> on an integer: the decimal digits, with a sign.
  This is what the host prints for the integers it represents exactly, those of
  magnitude below \<open>2^53\<close>. Beyond them the digits the host prints are those of
  the nearest floating-point number, rounded to the shortest form, and from
  \<open>10^21\<close> on in exponent notation; the theorems below that mention a printed
  number stay below \<open>2^53\<close>.
\<close>

definition digit_char :: "nat \<Rightarrow> char" where
  "digit_char d = ''0123456789'' ! d"

fun nat_toString :: "nat \<Rightarrow> string" where
  "nat_toString n = (if n < 10 then [digit_char n] else nat_toString (n div 10) @ [digit_char (n mod 10)])"

definition number_toString :: "int \<Rightarrow> string" where
  "number_toString n = (if n < 0 then CHR ''-'' # nat_toString (nat (- n)) else nat_toString (nat n))"

abbreviation backslash :: char where
  "backslash \<equiv> CHR 0x5C"

subsection \<open>Construction\<close>

text \<open>The private constructor, reached through \<open>IrregularExpression.match()\<close>.\<close>

definition match :: builder where
  "match = \<lparr>pattern = [], flags = [''g''], maxRun = None, dispatched = []\<rparr>"

text \<open>\<open>emitError\<close>: one \<open>error\<close> event carrying the message.\<close>

definition emitError :: "string \<Rightarrow> builder \<Rightarrow> builder" where
  "emitError message b = b\<lparr>dispatched := dispatched b @ [message]\<rparr>"

text \<open>The statement \<open>this.pattern += s\<close>.\<close>

definition append :: "string \<Rightarrow> builder \<Rightarrow> builder" where
  "append s b = b\<lparr>pattern := pattern b @ s\<rparr>"

subsection \<open>Flags and the result cap\<close>

definition add_flag :: "string \<Rightarrow> builder \<Rightarrow> builder" where
  "add_flag f b = (if \<not> set_has (flags b) f then b\<lparr>flags := set_add (flags b) f\<rparr> else b)"

definition ignoreCase :: "builder \<Rightarrow> builder" where
  "ignoreCase b = add_flag ''i'' b"

definition multiline :: "builder \<Rightarrow> builder" where
  "multiline b = add_flag ''m'' b"

definition dotAll :: "builder \<Rightarrow> builder" where
  "dotAll b = add_flag ''s'' b"

definition unicode :: "builder \<Rightarrow> builder" where
  "unicode b = add_flag ''u'' b"

definition runTimes :: "number \<Rightarrow> builder \<Rightarrow> builder" where
  "runTimes cnt b =
     (case cnt of
        Integer n \<Rightarrow>
          if n \<le> 0 then emitError ''runTimes expects a positive integer.'' b
          else b\<lparr>maxRun := Some n\<rparr>
      | NonInteger \<Rightarrow> emitError ''runTimes expects a positive integer.'' b)"

subsection \<open>Fixed tokens\<close>

definition startOfLine :: "builder \<Rightarrow> builder" where
  "startOfLine b = append ''^'' b"

definition endOfLine :: "builder \<Rightarrow> builder" where
  "endOfLine b = append ''$'' b"

definition anySingleCharacter :: "builder \<Rightarrow> builder" where
  "anySingleCharacter b = append ''.'' b"

definition zeroOrMore :: "builder \<Rightarrow> builder" where
  "zeroOrMore b = append ''*'' b"

definition oneOrMore :: "builder \<Rightarrow> builder" where
  "oneOrMore b = append ''+'' b"

definition zeroOrOne :: "builder \<Rightarrow> builder" where
  "zeroOrOne b = append ''?'' b"

definition digit :: "builder \<Rightarrow> builder" where
  "digit b = append [backslash, CHR ''d''] b"

definition nonDigit :: "builder \<Rightarrow> builder" where
  "nonDigit b = append [backslash, CHR ''D''] b"

definition wordCharacter :: "builder \<Rightarrow> builder" where
  "wordCharacter b = append [backslash, CHR ''w''] b"

definition nonWordCharacter :: "builder \<Rightarrow> builder" where
  "nonWordCharacter b = append [backslash, CHR ''W''] b"

definition whitespace :: "builder \<Rightarrow> builder" where
  "whitespace b = append [backslash, CHR ''s''] b"

definition nonWhitespace :: "builder \<Rightarrow> builder" where
  "nonWhitespace b = append [backslash, CHR ''S''] b"

definition wordBoundary :: "builder \<Rightarrow> builder" where
  "wordBoundary b = append [backslash, CHR ''b''] b"

subsection \<open>Escaping, literals and character classes\<close>

text \<open>
  The character class of the expression in \<open>escapeRegExp\<close> and
  \<open>escapeSpecialChars\<close>, member by member in the order it is written:
  \<open>. * + ? ^ $ { } ( ) | [ ] \<close> and the backslash.
\<close>

definition special :: "char \<Rightarrow> bool" where
  "special c =
     (c = CHR ''.'' \<or> c = CHR ''*'' \<or> c = CHR ''+'' \<or> c = CHR ''?'' \<or> c = CHR ''^'' \<or>
      c = CHR ''$'' \<or> c = CHR ''{'' \<or> c = CHR ''}'' \<or> c = CHR ''('' \<or> c = CHR '')'' \<or>
      c = CHR ''|'' \<or> c = CHR ''['' \<or> c = CHR '']'' \<or> c = backslash)"

text \<open>
  \<open>text.replace(/[...]/g, '\\$&')\<close>: the scan goes left to right; a character of
  the class is one match and is replaced by a backslash followed by the match
  itself, any other character is copied.
\<close>

fun escapeRegExp :: "string \<Rightarrow> string" where
  "escapeRegExp [] = []"
| "escapeRegExp (c # cs) =
     (if special c then backslash # c # escapeRegExp cs else c # escapeRegExp cs)"

definition escapeSpecialChars :: "string \<Rightarrow> string" where
  "escapeSpecialChars str = escapeRegExp str"

definition literal :: "string \<Rightarrow> builder \<Rightarrow> builder" where
  "literal text b = append (escapeRegExp text) b"

definition range_op :: "string \<Rightarrow> string \<Rightarrow> builder \<Rightarrow> builder" where
  "range_op start end' b = append (''['' @ start @ ''-'' @ end' @ '']'') b"

definition notInRange :: "string \<Rightarrow> string \<Rightarrow> builder \<Rightarrow> builder" where
  "notInRange start end' b = append (''[^'' @ start @ ''-'' @ end' @ '']'') b"

definition anyOf :: "string \<Rightarrow> builder \<Rightarrow> builder" where
  "anyOf chars b = append (''['' @ escapeRegExp chars @ '']'') b"

definition noneOf :: "string \<Rightarrow> builder \<Rightarrow> builder" where
  "noneOf chars b = append (''[^'' @ escapeRegExp chars @ '']'') b"

definition anyCharacterExcept :: "string \<Rightarrow> builder \<Rightarrow> builder" where
  "anyCharacterExcept chars b = append (''[^'' @ escapeSpecialChars chars @ '']'') b"

subsection \<open>Counted quantifiers\<close>

definition exactly :: "number \<Rightarrow> builder \<Rightarrow> builder" where
  "exactly n b =
     (case n of
        Integer k \<Rightarrow>
          if k < 0 then emitError ''exactly expects a non-negative integer.'' b
          else append (''{'' @ number_toString k @ ''}'') b
      | NonInteger \<Rightarrow> emitError ''exactly expects a non-negative integer.'' b)"

definition atLeast_op :: "number \<Rightarrow> builder \<Rightarrow> builder" where
  "atLeast_op n b =
     (case n of
        Integer k \<Rightarrow>
          if k < 0 then emitError ''atLeast expects a non-negative integer.'' b
          else append (''{'' @ number_toString k @ '',}'') b
      | NonInteger \<Rightarrow> emitError ''atLeast expects a non-negative integer.'' b)"

text \<open>
  The test of \<open>between\<close> is \<open>!isInteger(n) || !isInteger(m) || n < 0 || m < n\<close>,
  evaluated left to right: the two comparisons are reached with two integers only.
\<close>

definition between :: "number \<Rightarrow> number \<Rightarrow> builder \<Rightarrow> builder" where
  "between n m b =
     (if \<not> isInteger n \<or> \<not> isInteger m then
        emitError ''between expects two non-negative integers where m >= n.'' b
      else
        (case (n, m) of
           (Integer k, Integer l) \<Rightarrow>
             if k < 0 \<or> l < k then
               emitError ''between expects two non-negative integers where m >= n.'' b
             else append (''{'' @ number_toString k @ '','' @ number_toString l @ ''}'') b
         | _ \<Rightarrow> emitError ''between expects two non-negative integers where m >= n.'' b))"

subsection \<open>Groups, alternation and backreferences\<close>

text \<open>
  A grouping method makes a fresh builder, hands it to the callback, and reads the
  pattern the callback left in it; the value the callback returns is not used. The
  callback is the state transformer it is on the builder it receives. Events that
  the callback raises are dispatched on the child, which has no listener of the
  parent's, and die with it.
\<close>

definition capture :: "(builder \<Rightarrow> builder) \<Rightarrow> builder \<Rightarrow> builder" where
  "capture callback b =
     (let groupBuilder = callback match
      in append (''('' @ pattern groupBuilder @ '')'') b)"

definition namedCapture :: "string \<Rightarrow> (builder \<Rightarrow> builder) \<Rightarrow> builder \<Rightarrow> builder" where
  "namedCapture name callback b =
     (let groupBuilder = callback match
      in append (''(?<'' @ name @ ''>'' @ pattern groupBuilder @ '')'') b)"

definition nonCapturingGroup :: "(builder \<Rightarrow> builder) \<Rightarrow> builder \<Rightarrow> builder" where
  "nonCapturingGroup callback b =
     (let groupBuilder = callback match
      in append (''(?:'' @ pattern groupBuilder @ '')'') b)"

definition positiveLookahead :: "(builder \<Rightarrow> builder) \<Rightarrow> builder \<Rightarrow> builder" where
  "positiveLookahead callback b =
     (let groupBuilder = callback match
      in append (''(?='' @ pattern groupBuilder @ '')'') b)"

definition negativeLookahead :: "(builder \<Rightarrow> builder) \<Rightarrow> builder \<Rightarrow> builder" where
  "negativeLookahead callback b =
     (let groupBuilder = callback match
      in append (''(?!'' @ pattern groupBuilder @ '')'') b)"

definition positiveLookbehind :: "(builder \<Rightarrow> builder) \<Rightarrow> builder \<Rightarrow> builder" where
  "positiveLookbehind callback b =
     (let groupBuilder = callback match
      in append (''(?<='' @ pattern groupBuilder @ '')'') b)"

definition negativeLookbehind :: "(builder \<Rightarrow> builder) \<Rightarrow> builder \<Rightarrow> builder" where
  "negativeLookbehind callback b =
     (let groupBuilder = callback match
      in append (''(?<!'' @ pattern groupBuilder @ '')'') b)"

text \<open>\<open>or(callback?)\<close>: the optional argument is an \<open>option\<close>.\<close>

definition or_op :: "(builder \<Rightarrow> builder) option \<Rightarrow> builder \<Rightarrow> builder" where
  "or_op callback b =
     (let b1 = append ''|'' b
      in case callback of
           None \<Rightarrow> b1
         | Some cb \<Rightarrow> (let altBuilder = cb match in append (pattern altBuilder) b1))"

text \<open>\<open>group\<close> runs its callback on the builder itself, between the two parentheses.\<close>

definition group :: "(builder \<Rightarrow> builder) \<Rightarrow> builder \<Rightarrow> builder" where
  "group callback b = append '')'' (callback (append ''('' b))"

definition backreference :: "number \<Rightarrow> builder \<Rightarrow> builder" where
  "backreference groupNumber b =
     (case groupNumber of
        Integer k \<Rightarrow>
          if k < 1 then
            emitError ''backreference expects a positive integer representing the group number.'' b
          else append (backslash # number_toString k) b
      | NonInteger \<Rightarrow>
          emitError ''backreference expects a positive integer representing the group number.'' b)"

text \<open>
  The test of \<open>namedBackreference\<close>, \<open>/^[A-Za-z_][A-Za-z0-9_]*$/\<close>: a first
  character that is a letter or an underscore, then letters, digits and
  underscores up to the end of the name.
\<close>

definition is_letter :: "char \<Rightarrow> bool" where
  "is_letter c =
     ((of_char (CHR ''A'') \<le> (of_char c :: nat) \<and> (of_char c :: nat) \<le> of_char (CHR ''Z'')) \<or>
      (of_char (CHR ''a'') \<le> (of_char c :: nat) \<and> (of_char c :: nat) \<le> of_char (CHR ''z'')))"

definition is_digit :: "char \<Rightarrow> bool" where
  "is_digit c =
     (of_char (CHR ''0'') \<le> (of_char c :: nat) \<and> (of_char c :: nat) \<le> of_char (CHR ''9''))"

fun valid_group_name :: "string \<Rightarrow> bool" where
  "valid_group_name [] = False"
| "valid_group_name (c # cs) =
     ((is_letter c \<or> c = CHR ''_'') \<and> list_all (\<lambda>d. is_letter d \<or> is_digit d \<or> d = CHR ''_'') cs)"

definition namedBackreference :: "string \<Rightarrow> builder \<Rightarrow> builder" where
  "namedBackreference groupName b =
     (if \<not> valid_group_name groupName then
        emitError ''namedBackreference expects a valid group name consisting of letters, numbers, and underscores, not starting with a number.'' b
      else append ([backslash] @ ''k<'' @ groupName @ ''>'') b)"

definition getPattern :: "builder \<Rightarrow> string" where
  "getPattern b = pattern b"

subsection \<open>Combining builders\<close>

text \<open>
  \<open>combine\<close> starts from a new builder and visits the arguments in order; for each
  it appends the pattern and adds the flags one by one, in the argument's
  insertion order.
\<close>

definition combine_step :: "builder \<Rightarrow> builder \<Rightarrow> builder" where
  "combine_step combined expr =
     (let c1 = combined\<lparr>pattern := pattern combined @ getPattern expr\<rparr>
      in c1\<lparr>flags := foldl set_add (flags c1) (flags expr)\<rparr>)"

definition combine :: "builder list \<Rightarrow> builder" where
  "combine expressions = foldl combine_step match expressions"

section \<open>Chains of calls\<close>

text \<open>
  A chain of calls on one builder is a list of operations, one constructor for each
  public method that changes the builder. A callback is itself a chain of calls on
  the builder it receives, so the grouping operations carry a list.
\<close>

datatype op =
    IgnoreCase | Multiline | DotAll | Unicode | RunTimes number
  | StartOfLine | EndOfLine | AnySingleCharacter | ZeroOrMore | OneOrMore | ZeroOrOne
  | Literal string | Digit | NonDigit | WordCharacter | NonWordCharacter
  | Whitespace | NonWhitespace | WordBoundary
  | Range string string | NotInRange string string
  | AnyOf string | NoneOf string | AnyCharacterExcept string
  | Exactly number | AtLeast number | Between number number
  | Capture "op list" | NamedCapture string "op list" | NonCapturingGroup "op list"
  | PositiveLookahead "op list" | NegativeLookahead "op list"
  | PositiveLookbehind "op list" | NegativeLookbehind "op list"
  | Or "op list option" | Group "op list"
  | Backreference number | NamedBackreference string

fun run :: "op \<Rightarrow> builder \<Rightarrow> builder" and runs :: "op list \<Rightarrow> builder \<Rightarrow> builder" where
  "run IgnoreCase b = ignoreCase b"
| "run Multiline b = multiline b"
| "run DotAll b = dotAll b"
| "run Unicode b = unicode b"
| "run (RunTimes n) b = runTimes n b"
| "run StartOfLine b = startOfLine b"
| "run EndOfLine b = endOfLine b"
| "run AnySingleCharacter b = anySingleCharacter b"
| "run ZeroOrMore b = zeroOrMore b"
| "run OneOrMore b = oneOrMore b"
| "run ZeroOrOne b = zeroOrOne b"
| "run (Literal t) b = literal t b"
| "run Digit b = digit b"
| "run NonDigit b = nonDigit b"
| "run WordCharacter b = wordCharacter b"
| "run NonWordCharacter b = nonWordCharacter b"
| "run Whitespace b = whitespace b"
| "run NonWhitespace b = nonWhitespace b"
| "run WordBoundary b = wordBoundary b"
| "run (Range s e) b = range_op s e b"
| "run (NotInRange s e) b = notInRange s e b"
| "run (AnyOf cs) b = anyOf cs b"
| "run (NoneOf cs) b = noneOf cs b"
| "run (AnyCharacterExcept cs) b = anyCharacterExcept cs b"
| "run (Exactly n) b = exactly n b"
| "run (AtLeast n) b = atLeast_op n b"
| "run (Between n m) b = between n m b"
| "run (Capture cb) b = capture (\<lambda>g. runs cb g) b"
| "run (NamedCapture name cb) b = namedCapture name (\<lambda>g. runs cb g) b"
| "run (NonCapturingGroup cb) b = nonCapturingGroup (\<lambda>g. runs cb g) b"
| "run (PositiveLookahead cb) b = positiveLookahead (\<lambda>g. runs cb g) b"
| "run (NegativeLookahead cb) b = negativeLookahead (\<lambda>g. runs cb g) b"
| "run (PositiveLookbehind cb) b = positiveLookbehind (\<lambda>g. runs cb g) b"
| "run (NegativeLookbehind cb) b = negativeLookbehind (\<lambda>g. runs cb g) b"
| "run (Or None) b = or_op None b"
| "run (Or (Some cb)) b = or_op (Some (\<lambda>g. runs cb g)) b"
| "run (Group cb) b = group (\<lambda>g. runs cb g) b"
| "run (Backreference n) b = backreference n b"
| "run (NamedBackreference name) b = namedBackreference name b"
| "runs [] b = b"
| "runs (x # xs) b = runs xs (run x b)"

section \<open>The host engine\<close>

text \<open>
  The builder hands its pattern and flags to the regular-expression engine of the
  host, which is not part of the repository. The engine is a parameter: \<open>compile\<close>
  takes the pattern and the flag string and answers with the message of the syntax
  error it raises or with the compiled program; \<open>search\<close> takes a program, the
  input and a start position, and answers with the start and the end (exclusive)
  of the leftmost match that begins at or after the start position, if any.
\<close>

record 'r engine =
  compile :: "string \<Rightarrow> string \<Rightarrow> string + 'r"
  search :: "'r \<Rightarrow> string \<Rightarrow> nat \<Rightarrow> (nat \<times> nat) option"

text \<open>
  A \<open>RegExp\<close> object: the program, whether the flag \<open>g\<close> was given, and the
  mutable \<open>lastIndex\<close>. The result of \<open>exec\<close> keeps the position of the match
  and the matched text (element 0 of the array).
\<close>

record 'r regexp =
  program :: 'r
  global :: bool
  lastIndex :: nat

record exec_array =
  index :: nat
  matched :: string

definition new_RegExp :: "'r engine \<Rightarrow> string \<Rightarrow> string \<Rightarrow> string + 'r regexp" where
  "new_RegExp eng p fl =
     (case compile eng p fl of
        Inl message \<Rightarrow> Inl message
      | Inr r \<Rightarrow> Inr \<lparr>program = r, global = (CHR ''g'' \<in> set fl), lastIndex = 0\<rparr>)"

text \<open>
  \<open>RegExp.prototype.exec\<close>, as the language standard fixes it: a global
  expression starts at \<open>lastIndex\<close>, any other at 0; a start beyond the input or
  a failed search gives \<open>null\<close> and resets \<open>lastIndex\<close>; a match moves
  \<open>lastIndex\<close> of a global expression to the end of the match.
\<close>

definition regexp_exec :: "'r engine \<Rightarrow> 'r regexp \<Rightarrow> string \<Rightarrow> exec_array option \<times> 'r regexp" where
  "regexp_exec eng re input =
     (let start = (if global re then lastIndex re else 0)
      in if length input < start then (None, if global re then re\<lparr>lastIndex := 0\<rparr> else re)
         else
           (case search eng (program re) input start of
              None \<Rightarrow> (None, if global re then re\<lparr>lastIndex := 0\<rparr> else re)
            | Some (s, e) \<Rightarrow>
                (Some \<lparr>index = s, matched = take (e - s) (drop s input)\<rparr>,
                 if global re then re\<lparr>lastIndex := e\<rparr> else re)))"

definition regexp_test :: "'r engine \<Rightarrow> 'r regexp \<Rightarrow> string \<Rightarrow> bool \<times> 'r regexp" where
  "regexp_test eng re input =
     (case regexp_exec eng re input of (m, re') \<Rightarrow> (m \<noteq> None, re'))"

section \<open>Compilation and execution\<close>

text \<open>\<open>Array.from(this.flags).join('')\<close>: the flags in insertion order.\<close>

definition flag_string :: "builder \<Rightarrow> string" where
  "flag_string b = concat (flags b)"

text \<open>
  \<open>build\<close> returns the expression and leaves an event behind when the engine
  refuses the pattern. The replacement expression is made inside the handler, so
  an error of the engine there leaves \<open>build\<close> as an exception: the left summand.
\<close>

definition build :: "'r engine \<Rightarrow> builder \<Rightarrow> (string + 'r regexp) \<times> builder" where
  "build eng b =
     (case new_RegExp eng (pattern b) (flag_string b) of
        Inr re \<Rightarrow> (Inr re, b)
      | Inl message \<Rightarrow>
          (let b' = emitError (''Invalid regex pattern: '' @ message) b
           in (new_RegExp eng ''(?!x)x'' [], b')))"

definition test :: "'r engine \<Rightarrow> string \<Rightarrow> builder \<Rightarrow> bool \<times> builder" where
  "test eng input b =
     (case build eng b of
        (Inr regex, b') \<Rightarrow> (fst (regexp_test eng regex input), b')
      | (Inl message, b') \<Rightarrow> (False, emitError (''Test failed: '' @ message) b'))"

text \<open>
  The loop of \<open>execute\<close>. Nothing in it bounds the number of rounds, so it is a
  partial function: \<open>None\<close> is the loop that never leaves.
\<close>

partial_function (option) execute_loop ::
  "'r engine \<Rightarrow> string \<Rightarrow> int option \<Rightarrow> 'r regexp \<Rightarrow> exec_array list \<Rightarrow> nat \<Rightarrow> exec_array list option"
where
  "execute_loop eng input cap regex matches count =
     (case regexp_exec eng regex input of
        (None, regex') \<Rightarrow> Some matches
      | (Some m, regex') \<Rightarrow>
          (let matches' = matches @ [m]; count' = count + 1
           in if cap \<noteq> None \<and> the cap \<le> int count' then Some matches'
              else execute_loop eng input cap regex' matches' count'))"

text \<open>
  \<open>execute\<close>: \<open>None\<close> when the call does not return, \<open>Some (Inl message)\<close> when
  \<open>build\<close> throws, \<open>Some (Inr matches)\<close> when it returns the matches.
\<close>

definition execute ::
  "'r engine \<Rightarrow> string \<Rightarrow> builder \<Rightarrow> (string + exec_array list) option \<times> builder" where
  "execute eng input b =
     (case build eng b of
        (Inl message, b') \<Rightarrow> (Some (Inl message), b')
      | (Inr regex, b') \<Rightarrow>
          (map_option Inr (execute_loop eng input (maxRun b') regex [] 0), b'))"

section \<open>An engine for the examples\<close>

text \<open>
  The host engine cut down to the patterns of the examples below: the empty
  pattern, which matches the empty string at every position; \<open>\d+\<close>, which matches
  a longest run of digits; \<open>(?!x)x\<close>, which matches nowhere. On these it
  answers as the host does, whatever the flags. Every other pattern it refuses;
  the one such pattern used below is \<open>*\<close>, which the host refuses as well
  (nothing to repeat).
\<close>

datatype program = Empty | Digits | Nowhere

definition find_digits :: "string \<Rightarrow> nat \<Rightarrow> (nat \<times> nat) option" where
  "find_digits input i =
     (let s = i + length (takeWhile (\<lambda>c. \<not> is_digit c) (drop i input));
          run = takeWhile is_digit (drop s input)
      in if run = [] then None else Some (s, s + length run))"

definition example_compile :: "string \<Rightarrow> string \<Rightarrow> string + program" where
  "example_compile p fl =
     (if p = [] then Inr Empty
      else if p = [backslash, CHR ''d'', CHR ''+''] then Inr Digits
      else if p = ''(?!x)x'' then Inr Nowhere
      else Inl ''Invalid regular expression'')"

fun example_search :: "program \<Rightarrow> string \<Rightarrow> nat \<Rightarrow> (nat \<times> nat) option" where
  "example_search Empty input i = Some (i, i)"
| "example_search Digits input i = find_digits input i"
| "example_search Nowhere input i = None"

definition example_engine :: "program engine" where
  "example_engine = \<lparr>compile = example_compile, search = example_search\<rparr>"

section \<open>Builders of the public interface\<close>


definition flags_ok :: "builder \<Rightarrow> bool" where
  "flags_ok b = (''g'' \<in> set (flags b) \<and> distinct (flags b))"

section \<open>Flag calls and the canonical rendering\<close>

text \<open>
  The four flag methods, the operation each one is, and the flag each one adds.
\<close>

datatype flag_call = CallIgnoreCase | CallMultiline | CallDotAll | CallUnicode

fun call_op :: "flag_call \<Rightarrow> op" where
  "call_op CallIgnoreCase = IgnoreCase"
| "call_op CallMultiline = Multiline"
| "call_op CallDotAll = DotAll"
| "call_op CallUnicode = Unicode"

fun flag_code :: "flag_call \<Rightarrow> string" where
  "flag_code CallIgnoreCase = ''i''"
| "flag_code CallMultiline = ''m''"
| "flag_code CallDotAll = ''s''"
| "flag_code CallUnicode = ''u''"

text \<open>The place of each flag in the canonical order.\<close>

fun flag_rank :: "flag_call \<Rightarrow> nat" where
  "flag_rank CallIgnoreCase = 1"
| "flag_rank CallMultiline = 2"
| "flag_rank CallDotAll = 3"
| "flag_rank CallUnicode = 4"

text \<open>A list without its repetitions, each member kept where it first occurs.\<close>

definition first_occurrences :: "'a list \<Rightarrow> 'a list" where
  "first_occurrences xs = rev (remdups (rev xs))"

text \<open>
  The canonical rendering, in the words of the specification: the active flags in
  the fixed order global, case-insensitive, multiline, dotAll, unicode.
\<close>

definition canonical_flags :: "string list \<Rightarrow> string" where
  "canonical_flags fs = concat (filter (\<lambda>f. f \<in> set fs) [''g'', ''i'', ''m'', ''s'', ''u''])"

section \<open>The sequence of matches\<close>





text \<open>
  The loop with no cap, on a global expression that matches the empty string at
  every position of the input.
\<close>

definition stuck :: "'r engine \<Rightarrow> string \<Rightarrow> int option \<Rightarrow> 'r regexp \<Rightarrow> bool" where
  "stuck eng input cap regex =
     (cap = None \<and> global regex \<and> lastIndex regex \<le> length input \<and>
      (\<forall>i\<le>length input. search eng (program regex) input i = Some (i, i)))"

section \<open>Properties\<close>

subsection \<open>Literals\<close>

lemma escapeRegExp_concat:
  "escapeRegExp t =
     concat (map (\<lambda>c. if c \<in> set (''.*+?^${}()|[]'' @ [backslash]) then [backslash, c] else [c]) t)"
  by (induction t) (auto simp: special_def)

text \<open>
  C8. \<open>literal(text)\<close> appends \<open>text\<close> with every occurrence of one of the
  fourteen characters \<open>. * + ? ^ $ { } ( ) | [ ]\<close> and the backslash preceded by
  a backslash, and every other character as it is; flags, result cap and events
  stay as they were.
\<close>

theorem literal_escapes:
  "pattern (literal text b) =
     pattern b @
     concat (map (\<lambda>c. if c \<in> set (''.*+?^${}()|[]'' @ [backslash]) then [backslash, c] else [c]) text)
   \<and> flags (literal text b) = flags b
   \<and> maxRun (literal text b) = maxRun b
   \<and> dispatched (literal text b) = dispatched b"
  by (simp add: literal_def append_def escapeRegExp_concat)

theorem literal_escapes_witness:
  "pattern (literal ''a.b(c)'' match) =
     [CHR ''a'', backslash, CHR ''.'', CHR ''b'', backslash, CHR ''('', CHR ''c'', backslash, CHR '')'']"
  using literal_escapes [of "''a.b(c)''" match] by (simp add: match_def)

subsection \<open>Counted quantifiers\<close>



subsection \<open>Combining\<close>

lemma pattern_combine_step: "pattern (combine_step c e) = pattern c @ pattern e"
  by (simp add: combine_step_def getPattern_def Let_def)

lemma maxRun_combine_step: "maxRun (combine_step c e) = maxRun c"
  by (simp add: combine_step_def Let_def)

lemma maxRun_foldl_combine_step: "maxRun (foldl combine_step c es) = maxRun c"
  by (induction es arbitrary: c) (simp_all add: maxRun_combine_step)

lemma dispatched_combine_step: "dispatched (combine_step c e) = dispatched c"
  by (simp add: combine_step_def Let_def)

lemma dispatched_foldl_combine_step: "dispatched (foldl combine_step c es) = dispatched c"
  by (induction es arbitrary: c) (simp_all add: dispatched_combine_step)

text \<open>
  C10. The builder that \<open>combine\<close> returns has no result cap, whatever caps its
  arguments carry, and no event of theirs: only patterns and flags go into it.
\<close>

theorem combine_has_no_cap:
  "maxRun (combine expressions) = None \<and> dispatched (combine expressions) = []"
  by (simp add: combine_def maxRun_foldl_combine_step dispatched_foldl_combine_step match_def)

theorem combine_has_no_cap_witness:
  "maxRun (runTimes (Integer 2) (digit match)) = Some 2
   \<and> maxRun (combine [runTimes (Integer 2) (digit match), literal ''a'' match]) = None"
  using combine_has_no_cap [of "[runTimes (Integer 2) (digit match), literal ''a'' match]"]
  by (simp add: runTimes_def)

subsection \<open>The flag set\<close>

lemma flags_append [simp]: "flags (append s b) = flags b"
  by (simp add: append_def)

lemma flags_emitError [simp]: "flags (emitError s b) = flags b"
  by (simp add: emitError_def)

lemma flags_ok_append [simp]: "flags_ok (append s b) = flags_ok b"
  by (simp add: flags_ok_def)

lemma flags_ok_emitError [simp]: "flags_ok (emitError s b) = flags_ok b"
  by (simp add: flags_ok_def)


















lemma flags_add_flag: "flags (add_flag f b) = set_add (flags b) f"
  by (simp add: add_flag_def set_has_def set_add_def)


lemma flags_runTimes [simp]: "flags (runTimes n b) = flags b"
  by (cases n) (auto simp: runTimes_def)

lemma flags_exactly [simp]: "flags (exactly n b) = flags b"
  by (cases n) (auto simp: exactly_def)

lemma flags_atLeast [simp]: "flags (atLeast_op n b) = flags b"
  by (cases n) (auto simp: atLeast_op_def)

lemma flags_between [simp]: "flags (between n m b) = flags b"
  by (cases n; cases m) (auto simp: between_def)

lemma flags_backreference [simp]: "flags (backreference n b) = flags b"
  by (cases n) (auto simp: backreference_def)

lemma flags_or [simp]: "flags (or_op cb b) = flags b"
  by (cases cb) (auto simp: or_op_def Let_def)




subsection \<open>The flag string of \<open>build\<close>\<close>

lemma flags_runs_calls:
  "flags (runs (map call_op cs) b) = foldl set_add (flags b) (map flag_code cs)"
proof (induction cs arbitrary: b)
  case Nil
  then show ?case by simp
next
  case (Cons c cs)
  then show ?case
    by (cases c) (simp_all add: ignoreCase_def multiline_def dotAll_def unicode_def flags_add_flag)
qed

lemma set_first_occurrences [simp]: "set (first_occurrences xs) = set xs"
  by (simp add: first_occurrences_def)

lemma distinct_first_occurrences [simp]: "distinct (first_occurrences xs)"
  by (simp add: first_occurrences_def)

lemma first_occurrences_snoc:
  "first_occurrences (xs @ [x]) = set_add (first_occurrences xs) x"
  by (simp add: first_occurrences_def set_add_def)

lemma foldl_set_add_first_occurrences:
  "foldl set_add (first_occurrences xs) ys = first_occurrences (xs @ ys)"
proof (induction ys rule: rev_induct)
  case Nil
  then show ?case by simp
next
  case (snoc y ys)
  then show ?case
    using first_occurrences_snoc [of "xs @ ys" y] by simp
qed

lemma remdups_snoc_fresh: "x \<notin> set ys \<Longrightarrow> remdups (ys @ [x]) = remdups ys @ [x]"
  by (induction ys) auto

lemma first_occurrences_Cons:
  "x \<notin> set xs \<Longrightarrow> first_occurrences (x # xs) = x # first_occurrences xs"
  by (simp add: first_occurrences_def remdups_snoc_fresh)

lemma g_not_flag_code: "''g'' \<notin> set (map flag_code cs)"
proof (induction cs)
  case Nil
  then show ?case by simp
next
  case (Cons c cs)
  then show ?case by (cases c) simp_all
qed

lemma flags_of_calls:
  "flags (runs (map call_op cs) match) = ''g'' # first_occurrences (map flag_code cs)"
proof -
  have "flags match = first_occurrences [''g'']"
    by (simp add: match_def first_occurrences_def)
  then have "flags (runs (map call_op cs) match) = first_occurrences (''g'' # map flag_code cs)"
    using foldl_set_add_first_occurrences [of "[''g'']" "map flag_code cs"]
    by (simp add: flags_runs_calls)
  then show ?thesis
    using g_not_flag_code [of cs] by (simp add: first_occurrences_Cons)
qed

lemma flag_code_cases: "flag_code c \<in> {''i'', ''m'', ''s'', ''u''}"
  by (cases c) simp_all

lemma length_flag_code: "length (flag_code c) = 1"
  by (cases c) simp_all

lemma set_filter_member: "set fs \<subseteq> set L \<Longrightarrow> set (filter (\<lambda>f. f \<in> set fs) L) = set fs"
  by auto

lemma set_canonical_flags:
  assumes "set fs \<subseteq> set [''g'', ''i'', ''m'', ''s'', ''u'']"
  shows "set (canonical_flags fs) = set (concat fs)"
proof -
  have "set (filter (\<lambda>f. f \<in> set fs) [''g'', ''i'', ''m'', ''s'', ''u'']) = set fs"
    using assms by (rule set_filter_member)
  then show ?thesis
    unfolding canonical_flags_def set_concat by simp
qed

lemma flag_code_known: "flag_code c \<in> set [''g'', ''i'', ''m'', ''s'', ''u'']"
  by (cases c) simp_all

lemma distinct_concat_singletons:
  "distinct xs \<Longrightarrow> (\<forall>x\<in>set xs. length x = 1) \<Longrightarrow> distinct (concat xs)"
proof (induction xs)
  case Nil
  then show ?case by simp
next
  case (Cons x xs)
  then obtain c where x: "x = [c]" by (cases x) auto
  have "c \<notin> set (concat xs)"
  proof
    assume "c \<in> set (concat xs)"
    then obtain y where y: "y \<in> set xs" "c \<in> set y" by auto
    with Cons.prems have "length y = 1" by simp
    then obtain d where "y = [d]" by (cases y) auto
    with y have "y = [c]" by simp
    with y x Cons.prems show False by simp
  qed
  with Cons x show ?case by simp
qed

lemma flag_code_inj: "flag_code x = flag_code d \<Longrightarrow> x = d"
  by (cases x; cases d) simp_all

lemma code_in_lower:
  "\<forall>x\<in>set cs. flag_rank x \<le> flag_rank c \<Longrightarrow> flag_code d \<in> set (map flag_code cs) \<Longrightarrow> flag_rank d \<le> flag_rank c"
proof -
  assume a: "\<forall>x\<in>set cs. flag_rank x \<le> flag_rank c" and "flag_code d \<in> set (map flag_code cs)"
  then obtain x where x: "x \<in> set cs" "flag_code x = flag_code d" by auto
  from x(2) have "x = d" by (rule flag_code_inj)
  with a x show ?thesis by simp
qed

lemma set_add_canonical:
  assumes "\<forall>x\<in>set cs. flag_rank x \<le> flag_rank c"
  shows "set_add (filter (\<lambda>f. f \<in> set (map flag_code cs)) [''i'', ''m'', ''s'', ''u'']) (flag_code c) =
         filter (\<lambda>f. f \<in> set (map flag_code (cs @ [c]))) [''i'', ''m'', ''s'', ''u'']"
proof -
  note low = code_in_lower [OF assms]
  show ?thesis
  proof (cases c)
    case CallIgnoreCase
    have "''m'' \<notin> set (map flag_code cs)" "''s'' \<notin> set (map flag_code cs)" "''u'' \<notin> set (map flag_code cs)"
      using low [of CallMultiline] low [of CallDotAll] low [of CallUnicode] CallIgnoreCase by auto
    with CallIgnoreCase show ?thesis by (simp add: set_add_def)
  next
    case CallMultiline
    have "''s'' \<notin> set (map flag_code cs)" "''u'' \<notin> set (map flag_code cs)"
      using low [of CallDotAll] low [of CallUnicode] CallMultiline by auto
    with CallMultiline show ?thesis by (simp add: set_add_def)
  next
    case CallDotAll
    have "''u'' \<notin> set (map flag_code cs)"
      using low [of CallUnicode] CallDotAll by auto
    with CallDotAll show ?thesis by (simp add: set_add_def)
  next
    case CallUnicode
    then show ?thesis by (simp add: set_add_def)
  qed
qed

lemma first_occurrences_sorted:
  "sorted (map flag_rank cs) \<Longrightarrow>
     first_occurrences (map flag_code cs) =
       filter (\<lambda>f. f \<in> set (map flag_code cs)) [''i'', ''m'', ''s'', ''u'']"
proof (induction cs rule: rev_induct)
  case Nil
  then show ?case by (simp add: first_occurrences_def)
next
  case (snoc c cs)
  from snoc.prems have s: "sorted (map flag_rank cs)" and le: "\<forall>x\<in>set cs. flag_rank x \<le> flag_rank c"
    by (auto simp: sorted_append)
  have "first_occurrences (map flag_code (cs @ [c])) =
      set_add (first_occurrences (map flag_code cs)) (flag_code c)"
    using first_occurrences_snoc [of "map flag_code cs" "flag_code c"] by simp
  also have "\<dots> = set_add (filter (\<lambda>f. f \<in> set (map flag_code cs)) [''i'', ''m'', ''s'', ''u'']) (flag_code c)"
    using snoc.IH [OF s] by simp
  also have "\<dots> = filter (\<lambda>f. f \<in> set (map flag_code (cs @ [c]))) [''i'', ''m'', ''s'', ''u'']"
    using le by (rule set_add_canonical)
  finally show ?case .
qed

lemma canonical_when_sorted:
  assumes "sorted (map flag_rank cs)"
  shows "flag_string (runs (map call_op cs) match) = canonical_flags (flags (runs (map call_op cs) match))"
proof -
  let ?codes = "map flag_code cs"
  have fl: "flags (runs (map call_op cs) match) = ''g'' # first_occurrences ?codes"
    by (rule flags_of_calls)
  have g: "''g'' \<notin> set ?codes" by (rule g_not_flag_code)
  have "canonical_flags (''g'' # first_occurrences ?codes) =
      concat (''g'' # filter (\<lambda>f. f \<in> set ?codes) [''i'', ''m'', ''s'', ''u''])"
    by (simp add: canonical_flags_def)
  also have "\<dots> = concat (''g'' # first_occurrences ?codes)"
    using first_occurrences_sorted [OF assms] by simp
  finally show ?thesis by (simp add: fl flag_string_def)
qed

text \<open>
  C2, as the code has it. After any sequence of flag calls on a new builder the
  flag set is the global flag followed by every flag that was added, once, in the
  order of the first call of each. The flag string that \<open>build\<close> hands to the
  engine is that list joined: it has no repeated flag and the same flags as the
  canonical rendering, in the order of the calls; it is the canonical rendering
  when the calls come in canonical order.
\<close>

theorem flag_string_insertion_order:
  "flags (runs (map call_op cs) match) = ''g'' # first_occurrences (map flag_code cs)
   \<and> distinct (flag_string (runs (map call_op cs) match))
   \<and> set (flag_string (runs (map call_op cs) match)) =
       set (canonical_flags (flags (runs (map call_op cs) match)))
   \<and> (sorted (map flag_rank cs) \<longrightarrow>
        flag_string (runs (map call_op cs) match) =
          canonical_flags (flags (runs (map call_op cs) match)))"
proof -
  let ?b = "runs (map call_op cs) match"
  have fl: "flags ?b = ''g'' # first_occurrences (map flag_code cs)"
    by (rule flags_of_calls)
  have known: "set (flags ?b) \<subseteq> set [''g'', ''i'', ''m'', ''s'', ''u'']"
    unfolding fl using flag_code_known by auto
  have len: "\<forall>x\<in>set (flags ?b). length x = 1"
    unfolding fl using length_flag_code by auto
  have dist: "distinct (flags ?b)"
    unfolding fl using g_not_flag_code [of cs] by simp
  have d: "distinct (flag_string ?b)"
    unfolding flag_string_def using dist len by (rule distinct_concat_singletons)
  have s: "set (flag_string ?b) = set (canonical_flags (flags ?b))"
    unfolding flag_string_def using known by (rule set_canonical_flags [symmetric])
  have c: "flag_string ?b = canonical_flags (flags ?b)" if "sorted (map flag_rank cs)"
    using that by (rule canonical_when_sorted)
  from fl d s c show ?thesis by blast
qed

theorem flag_string_insertion_order_witness:
  "sorted (map flag_rank [CallIgnoreCase, CallMultiline, CallMultiline])
   \<and> flags (runs (map call_op [CallIgnoreCase, CallMultiline, CallMultiline]) match) = [''g'', ''i'', ''m'']
   \<and> flag_string (runs (map call_op [CallIgnoreCase, CallMultiline, CallMultiline]) match) = ''gim''
   \<and> canonical_flags (flags (runs (map call_op [CallIgnoreCase, CallMultiline, CallMultiline]) match)) = ''gim''"
  using flag_string_insertion_order [of "[CallIgnoreCase, CallMultiline, CallMultiline]"]
  by (simp add: first_occurrences_def flag_string_def canonical_flags_def)

text \<open>
  C2 as stated fails: \<open>multiline()\<close> before \<open>ignoreCase()\<close> makes \<open>build\<close>
  use the flag string \<open>gmi\<close>, and the canonical order is \<open>gim\<close>.
\<close>

theorem flag_string_canonical_counterexample:
  "flag_string (runs [Multiline, IgnoreCase] match) = ''gmi''
   \<and> canonical_flags (flags (runs [Multiline, IgnoreCase] match)) = ''gim''
   \<and> flag_string (runs [Multiline, IgnoreCase] match)
       \<noteq> canonical_flags (flags (runs [Multiline, IgnoreCase] match))"
  by (simp add: flag_string_def canonical_flags_def ignoreCase_def multiline_def add_flag_def
      set_has_def set_add_def match_def)

subsection \<open>Patterns and flags of \<open>combine\<close>\<close>

lemma pattern_foldl_combine_step:
  "pattern (foldl combine_step c es) = pattern c @ concat (map pattern es)"
  by (induction es arbitrary: c) (simp_all add: pattern_combine_step)

lemma set_foldl_set_add: "set (foldl set_add fs gs) = set fs \<union> set gs"
  by (induction gs arbitrary: fs) (auto simp: set_add_def)

lemma flags_combine_step: "set (flags (combine_step c e)) = set (flags c) \<union> set (flags e)"
  by (simp add: combine_step_def Let_def set_foldl_set_add)

lemma flags_foldl_combine_step:
  "set (flags (foldl combine_step c es)) = set (flags c) \<union> \<Union> (set (map (set \<circ> flags) es))"
  by (induction es arbitrary: c) (auto simp: flags_combine_step)

text \<open>
  C7, as the code has it. The pattern of \<open>combine(...builders)\<close> is the
  concatenation of the arguments' patterns in argument order. Its flag set is the
  global flag of the new builder together with the union of the arguments' flag
  sets; when there is at least one argument and every argument has the global
  flag, that is the union of the arguments' flag sets.
\<close>

theorem combine_concat_union:
  "pattern (combine bs) = concat (map pattern bs)
   \<and> set (flags (combine bs)) = {''g''} \<union> \<Union> (set (map (set \<circ> flags) bs))
   \<and> (bs \<noteq> [] \<and> list_all (\<lambda>b. ''g'' \<in> set (flags b)) bs \<longrightarrow>
        set (flags (combine bs)) = \<Union> (set (map (set \<circ> flags) bs)))"
proof -
  have p: "pattern (combine bs) = concat (map pattern bs)"
    by (simp add: combine_def pattern_foldl_combine_step match_def)
  have f: "set (flags (combine bs)) = {''g''} \<union> \<Union> (set (map (set \<circ> flags) bs))"
    by (simp add: combine_def flags_foldl_combine_step match_def)
  have g: "''g'' \<in> \<Union> (set (map (set \<circ> flags) bs))"
    if "bs \<noteq> []" "list_all (\<lambda>b. ''g'' \<in> set (flags b)) bs"
    using that by (cases bs) auto
  from p f g show ?thesis by auto
qed

text \<open>
  C7 as stated fails on the empty argument list: \<open>combine()\<close> has the flag set
  \<open>{g}\<close>, and the union of no flag sets is empty.
\<close>

theorem combine_union_counterexample:
  "set (flags (combine [])) \<noteq> \<Union> (set (map (set \<circ> flags) []))"
  by (simp add: combine_def match_def)

theorem combine_concat_union_witness:
  "[ignoreCase (literal ''a'' match), multiline (literal ''b.'' match)] \<noteq> []
   \<and> list_all (\<lambda>b. ''g'' \<in> set (flags b)) [ignoreCase (literal ''a'' match), multiline (literal ''b.'' match)]
   \<and> pattern (combine [ignoreCase (literal ''a'' match), multiline (literal ''b.'' match)]) =
       [CHR ''a'', CHR ''b'', backslash, CHR ''.'']
   \<and> set (flags (combine [ignoreCase (literal ''a'' match), multiline (literal ''b.'' match)])) =
       {''g'', ''i'', ''m''}
   \<and> set (flags (combine [ignoreCase (literal ''a'' match), multiline (literal ''b.'' match)])) =
       \<Union> (set (map (set \<circ> flags) [ignoreCase (literal ''a'' match), multiline (literal ''b.'' match)]))"
  using combine_concat_union [of "[ignoreCase (literal ''a'' match), multiline (literal ''b.'' match)]"]
  by (simp add: ignoreCase_def multiline_def add_flag_def set_has_def set_add_def match_def
      literal_def append_def special_def insert_commute)

subsection \<open>Names of capture groups\<close>

text \<open>
  C1. \<open>namedCapture\<close> does not look at the name: whatever the name is, it
  appends \<open>(?<name>...)\<close> around the child's pattern and dispatches no event.
  The name \<open>1a\<close> is not an identifier; \<open>namedCapture("1a", g => g.digit())\<close>
  appends the group \<open>(?<1a>\d)\<close>, while \<open>namedBackreference("1a")\<close> leaves the
  pattern alone and dispatches its failure event.
\<close>

theorem namedCapture_does_not_validate:
  "namedCapture name callback b =
     b\<lparr>pattern := pattern b @ ''(?<'' @ name @ ''>'' @ pattern (callback match) @ '')''\<rparr>
   \<and> \<not> valid_group_name ''1a''
   \<and> namedCapture ''1a'' digit match =
       \<lparr>pattern = ''(?<1a>'' @ [backslash, CHR ''d''] @ '')'', flags = [''g''], maxRun = None, dispatched = []\<rparr>
   \<and> namedBackreference ''1a'' match =
       \<lparr>pattern = [], flags = [''g''], maxRun = None, dispatched = [''namedBackreference expects a valid group name consisting of letters, numbers, and underscores, not starting with a number.'']\<rparr>"
  by (simp add: namedCapture_def namedBackreference_def digit_def append_def match_def
      emitError_def is_letter_def is_digit_def)

subsection \<open>A pattern the engine refuses\<close>

text \<open>
  C5. When the engine refuses the accumulated pattern, \<open>build\<close> dispatches a
  failure event with the engine's message and returns the expression compiled from
  \<open>(?!x)x\<close>, without flags. Given that the engine compiles that pattern and
  finds no match for it in any input, the returned expression matches no input,
  and \<open>test\<close> dispatches the same single event and returns false on every
  input.
\<close>

theorem build_rejected_pattern:
  assumes "compile eng (pattern b) (flag_string b) = Inl message"
    and "compile eng ''(?!x)x'' [] = Inr r0"
    and "\<forall>input i. search eng r0 input i = None"
  shows "build eng b =
           (Inr \<lparr>program = r0, global = False, lastIndex = 0\<rparr>,
            emitError (''Invalid regex pattern: '' @ message) b)
         \<and> fst (regexp_test eng \<lparr>program = r0, global = False, lastIndex = 0\<rparr> input) = False
         \<and> test eng input b = (False, emitError (''Invalid regex pattern: '' @ message) b)"
  using assms
  by (simp add: build_def new_RegExp_def test_def regexp_test_def regexp_exec_def Let_def)

theorem build_rejected_pattern_witness:
  "compile example_engine (pattern (zeroOrMore match)) (flag_string (zeroOrMore match)) = Inl ''Invalid regular expression''
   \<and> compile example_engine ''(?!x)x'' [] = Inr Nowhere
   \<and> (\<forall>input i. search example_engine Nowhere input i = None)
   \<and> build example_engine (zeroOrMore match) =
        (Inr \<lparr>program = Nowhere, global = False, lastIndex = 0\<rparr>,
         \<lparr>pattern = ''*'', flags = [''g''], maxRun = None,
          dispatched = [''Invalid regex pattern: Invalid regular expression'']\<rparr>)
   \<and> test example_engine ''aaa'' (zeroOrMore match) =
        (False, \<lparr>pattern = ''*'', flags = [''g''], maxRun = None,
          dispatched = [''Invalid regex pattern: Invalid regular expression'']\<rparr>)"
proof -
  have a: "compile example_engine (pattern (zeroOrMore match)) (flag_string (zeroOrMore match)) = Inl ''Invalid regular expression''"
    by (simp add: example_engine_def example_compile_def zeroOrMore_def append_def match_def)
  have b: "compile example_engine ''(?!x)x'' [] = Inr Nowhere"
    by (simp add: example_engine_def example_compile_def)
  have c: "\<forall>input i. search example_engine Nowhere input i = None"
    by (simp add: example_engine_def)
  from build_rejected_pattern [OF a b c, of "''aaa''"] a b c
  show ?thesis
    by (simp add: emitError_def zeroOrMore_def append_def match_def)
qed


subsection \<open>Empty matches\<close>

lemma stuck_exec:
  "stuck eng input cap regex \<Longrightarrow>
     regexp_exec eng regex input = (Some \<lparr>index = lastIndex regex, matched = []\<rparr>, regex)"
  by (simp add: stuck_def regexp_exec_def)

lemma execute_loop_stuck:
  assumes "execute_loop eng input cap regex matches count = Some y"
  shows "\<not> stuck eng input cap regex"
proof (rule execute_loop.raw_induct
    [where P = "\<lambda>eng input cap regex matches count y. \<not> stuck eng input cap regex", OF _ assms])
  fix loop :: "'r engine \<Rightarrow> string \<Rightarrow> int option \<Rightarrow> 'r regexp \<Rightarrow> exec_array list \<Rightarrow> nat \<Rightarrow> exec_array list option"
  fix eng input cap regex matches count y
  assume IH: "\<And>eng input cap regex matches count y.
      loop eng input cap regex matches count = Some y \<Longrightarrow> \<not> stuck eng input cap regex"
  assume body: "(case regexp_exec eng regex input of
        (None, regex') \<Rightarrow> Some matches
      | (Some m, regex') \<Rightarrow>
          (let matches' = matches @ [m]; count' = count + 1
           in if cap \<noteq> None \<and> the cap \<le> int count' then Some matches'
              else loop eng input cap regex' matches' count')) = Some y"
  show "\<not> stuck eng input cap regex"
  proof
    assume s: "stuck eng input cap regex"
    then have "cap = None" by (simp add: stuck_def)
    with body stuck_exec [OF s]
    have "loop eng input cap regex (matches @ [\<lparr>index = lastIndex regex, matched = []\<rparr>]) (count + 1) = Some y"
      by simp
    from IH [OF this] s show False by simp
  qed
qed

lemma stuck_never_returns:
  "stuck eng input cap regex \<Longrightarrow> execute_loop eng input cap regex matches count = None"
  using execute_loop_stuck [of eng input cap regex matches count]
  by (cases "execute_loop eng input cap regex matches count") auto

lemma example_empty: "new_RegExp example_engine [] ''g'' = Inr \<lparr>program = Empty, global = True, lastIndex = 0\<rparr>"
  by (simp add: new_RegExp_def example_engine_def example_compile_def)

text \<open>
  C3. The loop of \<open>execute\<close> resumes at \<open>lastIndex\<close>, which \<open>exec\<close> sets to
  the end of the match; after an empty match that is the position the search
  started from. On a new builder (empty pattern, no cap) and the input \<open>abc\<close>
  the first search returns the empty match at 0 and leaves \<open>lastIndex\<close> at 0,
  and \<open>execute\<close> never returns.
\<close>

theorem execute_zero_width_never_returns:
  "regexp_exec example_engine \<lparr>program = Empty, global = True, lastIndex = 0\<rparr> ''abc'' =
     (Some \<lparr>index = 0, matched = []\<rparr>, \<lparr>program = Empty, global = True, lastIndex = 0\<rparr>)
   \<and> fst (execute example_engine ''abc'' match) = None"
proof -
  have "stuck example_engine ''abc'' None \<lparr>program = Empty, global = True, lastIndex = 0\<rparr>"
    by (simp add: stuck_def example_engine_def)
  then have "execute_loop example_engine ''abc'' None \<lparr>program = Empty, global = True, lastIndex = 0\<rparr> [] 0 = None"
    by (rule stuck_never_returns)
  then have "fst (execute example_engine ''abc'' match) = None"
    by (simp add: execute_def build_def flag_string_def match_def example_empty)
  moreover have "regexp_exec example_engine \<lparr>program = Empty, global = True, lastIndex = 0\<rparr> ''abc'' =
     (Some \<lparr>index = 0, matched = []\<rparr>, \<lparr>program = Empty, global = True, lastIndex = 0\<rparr>)"
    by (simp add: regexp_exec_def example_engine_def)
  ultimately show ?thesis by simp
qed


subsection \<open>The matches of \<open>execute\<close>\<close>



lemma exec_global_none:
  "global re \<Longrightarrow> lastIndex re \<le> length input \<Longrightarrow> search eng (program re) input (lastIndex re) = None \<Longrightarrow>
     fst (regexp_exec eng re input) = None"
  by (simp add: regexp_exec_def)



















end
